theory Spec2Isabelle
  imports
    Main
    "HOL-Library.AList"
    "HOL-Library.Char_ord"
    "HOL-Library.List_Lexorder"
begin

section \<open>The Cloudflare R2 file system of \<^verbatim>\<open>src/r2.ts\<close>\<close>

text \<open>
  The class \<^verbatim>\<open>CloudflareR2FileSystem\<close> keeps three fields: the S3 client, the
  options and the metadata cache. The client and the options never change after
  construction, so every operation takes them as arguments; the cache, the state of the
  object store behind the client and the list of commands sent so far make up the state
  that an operation receives and returns.

  A JavaScript string is a \<^typ>\<open>string\<close>, held as the bytes of its UTF-8 encoding, the
  form in which the store keeps an object's body. \<^verbatim>\<open>startsWith\<close>, \<^verbatim>\<open>endsWith\<close>,
  \<^verbatim>\<open>includes\<close> and concatenation act on that form as they do on the code units; the
  lengths that \<^verbatim>\<open>slice\<close> and \<^verbatim>\<open>substring\<close> receive count bytes here and code units
  in JavaScript, which is the same number for ASCII text.
\<close>

subsection \<open>String primitives\<close>

definition startsWith :: "string \<Rightarrow> string \<Rightarrow> bool" where
  "startsWith s p = (take (length p) s = p)"

definition endsWith :: "string \<Rightarrow> string \<Rightarrow> bool" where
  "endsWith s p = (length p \<le> length s \<and> drop (length s - length p) s = p)"

text \<open>\<^verbatim>\<open>s.slice(n)\<close> and \<^verbatim>\<open>s.substring(n)\<close> for \<open>n \<ge> 0\<close>: the empty string past the end.\<close>

definition slice :: "string \<Rightarrow> nat \<Rightarrow> string" where
  "slice s n = drop n s"

definition substring :: "string \<Rightarrow> nat \<Rightarrow> string" where
  "substring s n = drop n s"

text \<open>\<^verbatim>\<open>s.includes(c)\<close> for a one-character string \<open>c\<close>.\<close>

definition includes_char :: "string \<Rightarrow> char \<Rightarrow> bool" where
  "includes_char s c = (c \<in> set s)"

text \<open>\<^verbatim>\<open>s.replace(/\/$/, "")\<close>: one slash at the very end is removed.\<close>

definition replace_trailing_slash :: "string \<Rightarrow> string" where
  "replace_trailing_slash s = (if endsWith s ''/'' then butlast s else s)"

text \<open>\<^verbatim>\<open>x || ""\<close> for an optional string: \<^verbatim>\<open>undefined\<close> and \<^verbatim>\<open>""\<close> both give \<^verbatim>\<open>""\<close>.\<close>

definition or_empty :: "string option \<Rightarrow> string" where
  "or_empty x = (case x of None \<Rightarrow> [] | Some s \<Rightarrow> s)"

subsection \<open>Decoding a buffer as UTF-8\<close>

text \<open>
  \<^verbatim>\<open>buffer.toString("utf-8")\<close> reads well-formed sequences as they are and puts U+FFFD
  (the bytes EF BF BD) for every maximal ill-formed part. On the byte form of strings
  that is a function from bytes to bytes.
\<close>

definition in_range :: "char \<Rightarrow> nat \<Rightarrow> nat \<Rightarrow> bool" where
  "in_range c lo hi = (lo \<le> of_char c \<and> (of_char c :: nat) \<le> hi)"

definition lower_boundary :: "char \<Rightarrow> nat" where
  "lower_boundary b =
     (if of_char b = (0xE0::nat) then 0xA0 else if of_char b = (0xF0::nat) then 0x90 else 0x80)"

definition upper_boundary :: "char \<Rightarrow> nat" where
  "upper_boundary b =
     (if of_char b = (0xED::nat) then 0x9F else if of_char b = (0xF4::nat) then 0x8F else 0xBF)"

definition replacement :: string where
  "replacement = [char_of (0xEF::nat), char_of (0xBF::nat), char_of (0xBD::nat)]"

fun utf8_wellformed :: "string \<Rightarrow> bool" where
  "utf8_wellformed [] = True"
| "utf8_wellformed (b # bs) =
     (if in_range b 0x00 0x7F then utf8_wellformed bs
      else if in_range b 0xC2 0xDF then
        (case bs of
           c1 # r1 \<Rightarrow> in_range c1 0x80 0xBF \<and> utf8_wellformed r1
         | _ \<Rightarrow> False)
      else if in_range b 0xE0 0xEF then
        (case bs of
           c1 # c2 # r2 \<Rightarrow>
             in_range c1 (lower_boundary b) (upper_boundary b) \<and> in_range c2 0x80 0xBF \<and>
             utf8_wellformed r2
         | _ \<Rightarrow> False)
      else if in_range b 0xF0 0xF4 then
        (case bs of
           c1 # c2 # c3 # r3 \<Rightarrow>
             in_range c1 (lower_boundary b) (upper_boundary b) \<and> in_range c2 0x80 0xBF \<and>
             in_range c3 0x80 0xBF \<and> utf8_wellformed r3
         | _ \<Rightarrow> False)
      else False)"

fun toString_utf8 :: "string \<Rightarrow> string" where
  "toString_utf8 [] = []"
| "toString_utf8 (b # bs) =
     (if in_range b 0x00 0x7F then b # toString_utf8 bs
      else if in_range b 0xC2 0xDF then
        (case bs of
           [] \<Rightarrow> replacement
         | c1 # r1 \<Rightarrow>
             if in_range c1 0x80 0xBF then b # c1 # toString_utf8 r1
             else replacement @ toString_utf8 bs)
      else if in_range b 0xE0 0xEF then
        (case bs of
           [] \<Rightarrow> replacement
         | c1 # r1 \<Rightarrow>
             if in_range c1 (lower_boundary b) (upper_boundary b) then
               (case r1 of
                  [] \<Rightarrow> replacement
                | c2 # r2 \<Rightarrow>
                    if in_range c2 0x80 0xBF then b # c1 # c2 # toString_utf8 r2
                    else replacement @ toString_utf8 r1)
             else replacement @ toString_utf8 bs)
      else if in_range b 0xF0 0xF4 then
        (case bs of
           [] \<Rightarrow> replacement
         | c1 # r1 \<Rightarrow>
             if in_range c1 (lower_boundary b) (upper_boundary b) then
               (case r1 of
                  [] \<Rightarrow> replacement
                | c2 # r2 \<Rightarrow>
                    if in_range c2 0x80 0xBF then
                      (case r2 of
                         [] \<Rightarrow> replacement
                       | c3 # r3 \<Rightarrow>
                           if in_range c3 0x80 0xBF then b # c1 # c2 # c3 # toString_utf8 r3
                           else replacement @ toString_utf8 r2)
                    else replacement @ toString_utf8 r1)
             else replacement @ toString_utf8 bs)
      else replacement @ toString_utf8 bs)"

subsection \<open>Options and the key codec\<close>

text \<open>
  The options after the constructor's defaults: \<^verbatim>\<open>prefix\<close> is \<^verbatim>\<open>""\<close> when none was
  given. The credentials, the region and the endpoint only configure the client.
\<close>

record CloudflareR2Options =
  bucket :: string
  prefix :: string

definition getR2Key :: "CloudflareR2Options \<Rightarrow> string \<Rightarrow> string" where
  "getR2Key opts path =
     (let normalizedPath = (if startsWith path ''/'' then slice path 1 else path)
      in if prefix opts \<noteq> [] then prefix opts @ ''/'' @ normalizedPath else normalizedPath)"

definition getLocalPath :: "CloudflareR2Options \<Rightarrow> string \<Rightarrow> string" where
  "getLocalPath opts key =
     (if prefix opts \<noteq> [] \<and> startsWith key (prefix opts @ ''/'')
      then slice key (length (prefix opts) + 1)
      else key)"

subsection \<open>Errors, cache entries and the responses of the store\<close>

text \<open>
  What \<^verbatim>\<open>s3Client.send\<close> throws: \<^verbatim>\<open>isNotFoundError\<close> reads the optional \<^verbatim>\<open>name\<close> and
  the optional \<^verbatim>\<open>$metadata.httpStatusCode\<close> of it.
\<close>

record aws_error =
  name :: "string option"
  httpStatusCode :: "nat option"

definition isNotFoundError :: "aws_error \<Rightarrow> bool" where
  "isNotFoundError awsError =
     (name awsError = Some ''NoSuchKey'' \<or> httpStatusCode awsError = Some 404)"

text \<open>
  What the public operations throw, one constructor for each message of the source
  (\<^verbatim>\<open>File not found: path\<close>, \<^verbatim>\<open>Failed to read file path: error\<close>, ...).
\<close>

datatype fs_error =
    File_not_found string
  | Failed_to_read_file string aws_error
  | Failed_to_write_file string aws_error
  | Failed_to_check_file_existence string aws_error
  | Failed_to_delete_file string aws_error
  | Failed_to_read_directory string aws_error
  | Failed_to_delete_directory string aws_error
  | Failed_to_get_file_stats string aws_error

text \<open>A \<^verbatim>\<open>Date\<close> is its time value, the milliseconds since the epoch.\<close>

type_synonym date = nat

record R2CacheEntry =
  size_e :: nat
  lastModified :: date
  etag :: string

record FileStats =
  size_s :: nat
  mtime :: date
  ctime :: date
  atime :: date
  mode :: nat
  isFile :: bool
  isDirectory :: bool
  isSymbolicLink :: bool

text \<open>
  A response body is an asynchronous sequence of chunks; reading it delivers the chunks
  and then either ends or throws.
\<close>

datatype ReadableStream = Stream (chunks: "string list") (failure: "aws_error option")

text \<open>
  The outputs of the commands, with the fields that the source reads; every field is
  optional, as in the SDK. The records extend one another so that a field keeps one name.
\<close>

record PutObjectCommandOutput =
  ETag :: "string option"

record S3Metadata = PutObjectCommandOutput +
  LastModified :: "date option"

record HeadObjectCommandOutput = S3Metadata +
  ContentLength :: "nat option"

record GetObjectCommandOutput = HeadObjectCommandOutput +
  Body :: "ReadableStream option"

record S3Object = S3Metadata +
  Key :: "string option"
  Size :: "nat option"

record CommonPrefix =
  Prefix :: "string option"

record ListObjectsV2CommandOutput =
  Contents :: "S3Object list option"
  CommonPrefixes :: "CommonPrefix list option"

text \<open>The commands, each with its bucket first; they are recorded as they are sent.\<close>

datatype command =
    GetObjectCommand string string
  | PutObjectCommand string string string string
  | HeadObjectCommand string string
  | DeleteObjectCommand string string
  | ListObjectsV2Command string string "char option"
  | DeleteObjectsCommand string "string list"

text \<open>
  The client is any object that answers the six commands: each answer is a thrown error
  or an output, together with the new state \<open>'s\<close> of whatever is behind the client.
\<close>

record 's S3Client =
  send_GetObject :: "string \<Rightarrow> string \<Rightarrow> 's \<Rightarrow> (aws_error + GetObjectCommandOutput) \<times> 's"
  send_PutObject ::
    "string \<Rightarrow> string \<Rightarrow> string \<Rightarrow> string \<Rightarrow> 's \<Rightarrow> (aws_error + PutObjectCommandOutput) \<times> 's"
  send_HeadObject :: "string \<Rightarrow> string \<Rightarrow> 's \<Rightarrow> (aws_error + HeadObjectCommandOutput) \<times> 's"
  send_DeleteObject :: "string \<Rightarrow> string \<Rightarrow> 's \<Rightarrow> (aws_error + unit) \<times> 's"
  send_ListObjectsV2 ::
    "string \<Rightarrow> string \<Rightarrow> char option \<Rightarrow> 's \<Rightarrow> (aws_error + ListObjectsV2CommandOutput) \<times> 's"
  send_DeleteObjects :: "string \<Rightarrow> string list \<Rightarrow> 's \<Rightarrow> (aws_error + unit) \<times> 's"

record 's world =
  cache :: "string \<rightharpoonup> R2CacheEntry"
  store :: 's
  sent :: "command list"

definition sendGet ::
  "'s S3Client \<Rightarrow> string \<Rightarrow> string \<Rightarrow> 's world \<Rightarrow> (aws_error + GetObjectCommandOutput) \<times> 's world"
where
  "sendGet cl b k w =
     (case send_GetObject cl b k (store w) of
        (r, s') \<Rightarrow> (r, w\<lparr>store := s', sent := sent w @ [GetObjectCommand b k]\<rparr>))"

definition sendPut ::
  "'s S3Client \<Rightarrow> string \<Rightarrow> string \<Rightarrow> string \<Rightarrow> string \<Rightarrow> 's world \<Rightarrow>
   (aws_error + PutObjectCommandOutput) \<times> 's world"
where
  "sendPut cl b k body ct w =
     (case send_PutObject cl b k body ct (store w) of
        (r, s') \<Rightarrow> (r, w\<lparr>store := s', sent := sent w @ [PutObjectCommand b k body ct]\<rparr>))"

definition sendHead ::
  "'s S3Client \<Rightarrow> string \<Rightarrow> string \<Rightarrow> 's world \<Rightarrow> (aws_error + HeadObjectCommandOutput) \<times> 's world"
where
  "sendHead cl b k w =
     (case send_HeadObject cl b k (store w) of
        (r, s') \<Rightarrow> (r, w\<lparr>store := s', sent := sent w @ [HeadObjectCommand b k]\<rparr>))"

definition sendDelete ::
  "'s S3Client \<Rightarrow> string \<Rightarrow> string \<Rightarrow> 's world \<Rightarrow> (aws_error + unit) \<times> 's world"
where
  "sendDelete cl b k w =
     (case send_DeleteObject cl b k (store w) of
        (r, s') \<Rightarrow> (r, w\<lparr>store := s', sent := sent w @ [DeleteObjectCommand b k]\<rparr>))"

definition sendList ::
  "'s S3Client \<Rightarrow> string \<Rightarrow> string \<Rightarrow> char option \<Rightarrow> 's world \<Rightarrow>
   (aws_error + ListObjectsV2CommandOutput) \<times> 's world"
where
  "sendList cl b p d w =
     (case send_ListObjectsV2 cl b p d (store w) of
        (r, s') \<Rightarrow> (r, w\<lparr>store := s', sent := sent w @ [ListObjectsV2Command b p d]\<rparr>))"

definition sendDeleteObjects ::
  "'s S3Client \<Rightarrow> string \<Rightarrow> string list \<Rightarrow> 's world \<Rightarrow> (aws_error + unit) \<times> 's world"
where
  "sendDeleteObjects cl b ks w =
     (case send_DeleteObjects cl b ks (store w) of
        (r, s') \<Rightarrow> (r, w\<lparr>store := s', sent := sent w @ [DeleteObjectsCommand b ks]\<rparr>))"

subsection \<open>The cache\<close>

definition cache_set :: "string \<Rightarrow> R2CacheEntry \<Rightarrow> 's world \<Rightarrow> 's world" where
  "cache_set key entry w = w\<lparr>cache := (cache w)(key \<mapsto> entry)\<rparr>"

definition cache_delete :: "string \<Rightarrow> 's world \<Rightarrow> 's world" where
  "cache_delete key w = w\<lparr>cache := (cache w)(key := None)\<rparr>"

text \<open>
  The block \<^verbatim>\<open>// Cache metadata\<close> of \<^verbatim>\<open>readFile\<close>, \<^verbatim>\<open>exists\<close> and \<^verbatim>\<open>readDir\<close>: an entry
  is stored when the length is defined and the date is there.
\<close>

definition cache_metadata ::
  "string \<Rightarrow> nat option \<Rightarrow> date option \<Rightarrow> string option \<Rightarrow> 's world \<Rightarrow> 's world"
where
  "cache_metadata key len lm tag w =
     (case len of
        None \<Rightarrow> w
      | Some n \<Rightarrow>
          (case lm of
             None \<Rightarrow> w
           | Some t \<Rightarrow> cache_set key \<lparr>size_e = n, lastModified = t, etag = or_empty tag\<rparr> w))"

subsection \<open>The operations\<close>

text \<open>
  \<^verbatim>\<open>streamToString\<close>: no stream gives the empty string; otherwise the chunks are
  collected, concatenated and decoded, and a failure of the stream is thrown on.
\<close>

definition streamToString :: "ReadableStream option \<Rightarrow> aws_error + string" where
  "streamToString stream =
     (case stream of
        None \<Rightarrow> Inr []
      | Some st \<Rightarrow>
          (case failure st of
             Some e \<Rightarrow> Inl e
           | None \<Rightarrow> Inr (toString_utf8 (concat (chunks st)))))"

text \<open>
  \<^verbatim>\<open>getContentType\<close>: the part after the last dot, in lower case, looked up in the table.
  Properties that the table object inherits (\<^verbatim>\<open>constructor\<close>, \<^verbatim>\<open>__proto__\<close>) are not
  in the table here.
\<close>

definition toLowerCase :: "string \<Rightarrow> string" where
  "toLowerCase s =
     map (\<lambda>c. if in_range c 0x41 0x5A then char_of (of_char c + (32::nat)) else c) s"

definition mimeTypes :: "(string \<times> string) list" where
  "mimeTypes =
     [(''json'', ''application/json''),
      (''txt'', ''text/plain''),
      (''md'', ''text/markdown''),
      (''html'', ''text/html''),
      (''css'', ''text/css''),
      (''js'', ''application/javascript''),
      (''ts'', ''application/typescript''),
      (''xml'', ''application/xml''),
      (''pdf'', ''application/pdf''),
      (''png'', ''image/png''),
      (''jpg'', ''image/jpeg''),
      (''jpeg'', ''image/jpeg''),
      (''gif'', ''image/gif''),
      (''svg'', ''image/svg+xml'')]"

definition getContentType :: "string \<Rightarrow> string" where
  "getContentType path =
     (let ext = toLowerCase (rev (takeWhile (\<lambda>c. c \<noteq> CHR ''.'') (rev path)))
      in case map_of mimeTypes ext of
           None \<Rightarrow> ''application/octet-stream''
         | Some t \<Rightarrow> t)"

text \<open>
  Every operation returns what the source returns or throws, and the new state. The clock
  argument of \<^verbatim>\<open>writeFile\<close> and \<^verbatim>\<open>stat\<close> gives the value of the \<open>n\<close>-th \<^verbatim>\<open>new Date()\<close>
  of the call.
\<close>

definition readFile ::
  "'s S3Client \<Rightarrow> CloudflareR2Options \<Rightarrow> string \<Rightarrow> 's world \<Rightarrow> (fs_error + string) \<times> 's world"
where
  "readFile cl opts path w =
     (let key = getR2Key opts path;
          catch = (\<lambda>error. if isNotFoundError error then File_not_found path
                           else Failed_to_read_file path error)
      in case sendGet cl (bucket opts) key w of
           (Inl error, w1) \<Rightarrow> (Inl (catch error), w1)
         | (Inr response, w1) \<Rightarrow>
             (case streamToString (Body response) of
                Inl error \<Rightarrow> (Inl (catch error), w1)
              | Inr content \<Rightarrow>
                  (Inr content,
                   cache_metadata key (ContentLength response) (LastModified response)
                     (ETag response) w1)))"

definition writeFile ::
  "'s S3Client \<Rightarrow> CloudflareR2Options \<Rightarrow> (nat \<Rightarrow> date) \<Rightarrow> string \<Rightarrow> string \<Rightarrow> 's world \<Rightarrow>
   (fs_error + unit) \<times> 's world"
where
  "writeFile cl opts clock path content w =
     (let key = getR2Key opts path
      in case sendPut cl (bucket opts) key content (getContentType path) w of
           (Inl error, w1) \<Rightarrow> (Inl (Failed_to_write_file path error), w1)
         | (Inr response, w1) \<Rightarrow>
             (Inr (),
              cache_set key
                \<lparr>size_e = length content, lastModified = clock 0,
                 etag = or_empty (ETag response)\<rparr> w1))"

definition exists ::
  "'s S3Client \<Rightarrow> CloudflareR2Options \<Rightarrow> string \<Rightarrow> 's world \<Rightarrow> (fs_error + bool) \<times> 's world"
where
  "exists cl opts path w =
     (let key = getR2Key opts path
      in if cache w key \<noteq> None then (Inr True, w)
         else
           (case sendHead cl (bucket opts) key w of
              (Inl error, w1) \<Rightarrow>
                (if isNotFoundError error then Inr False
                 else Inl (Failed_to_check_file_existence path error), w1)
            | (Inr response, w1) \<Rightarrow>
                (Inr True,
                 cache_metadata key (ContentLength response) (LastModified response)
                   (ETag response) w1)))"

definition deleteFile ::
  "'s S3Client \<Rightarrow> CloudflareR2Options \<Rightarrow> string \<Rightarrow> 's world \<Rightarrow> (fs_error + unit) \<times> 's world"
where
  "deleteFile cl opts path w =
     (let key = getR2Key opts path
      in case sendDelete cl (bucket opts) key w of
           (Inr _, w1) \<Rightarrow> (Inr (), cache_delete key w1)
         | (Inl error, w1) \<Rightarrow>
             (if \<not> isNotFoundError error then Inl (Failed_to_delete_file path error)
              else Inr (), w1))"

text \<open>One round of the loop over \<^verbatim>\<open>response.Contents\<close> in \<^verbatim>\<open>readDir\<close>.\<close>

definition readDir_object ::
  "CloudflareR2Options \<Rightarrow> string \<Rightarrow> string \<Rightarrow> S3Object \<Rightarrow> string list \<times> 's world \<Rightarrow>
   string list \<times> 's world"
where
  "readDir_object opts normalizedPath pfx object acc =
     (case acc of (entries, w) \<Rightarrow>
        (case Key object of
           None \<Rightarrow> (entries, w)
         | Some k \<Rightarrow>
             if k \<noteq> [] \<and> k \<noteq> pfx then
               (let localPath = getLocalPath opts k;
                    fileName = substring localPath (length normalizedPath)
                in if fileName \<noteq> [] \<and> \<not> includes_char fileName CHR ''/'' then
                     (entries @ [fileName],
                      cache_metadata k (Size object) (LastModified object) (ETag object) w)
                   else (entries, w))
             else (entries, w)))"

text \<open>One round of the loop over \<^verbatim>\<open>response.CommonPrefixes\<close>.\<close>

definition readDir_commonPrefix ::
  "CloudflareR2Options \<Rightarrow> string \<Rightarrow> CommonPrefix \<Rightarrow> string list \<Rightarrow> string list"
where
  "readDir_commonPrefix opts normalizedPath commonPrefix entries =
     (case Prefix commonPrefix of
        None \<Rightarrow> entries
      | Some cp \<Rightarrow>
          if cp \<noteq> [] then
            (let localPath = getLocalPath opts cp;
                 dirName = replace_trailing_slash (substring localPath (length normalizedPath))
             in if dirName \<noteq> [] then entries @ [dirName @ ''/''] else entries)
          else entries)"

definition readDir ::
  "'s S3Client \<Rightarrow> CloudflareR2Options \<Rightarrow> string \<Rightarrow> 's world \<Rightarrow>
   (fs_error + string list) \<times> 's world"
where
  "readDir cl opts path w =
     (let normalizedPath = (if endsWith path ''/'' then path else path @ ''/'');
          pfx = getR2Key opts normalizedPath
      in case sendList cl (bucket opts) pfx (Some CHR ''/'') w of
           (Inl error, w1) \<Rightarrow> (Inl (Failed_to_read_directory path error), w1)
         | (Inr response, w1) \<Rightarrow>
             (case fold (readDir_object opts normalizedPath pfx)
                     (case Contents response of None \<Rightarrow> [] | Some objs \<Rightarrow> objs) ([], w1) of
                (files, w2) \<Rightarrow>
                  (Inr (sort (fold (readDir_commonPrefix opts normalizedPath)
                          (case CommonPrefixes response of None \<Rightarrow> [] | Some cps \<Rightarrow> cps)
                          files)),
                   w2)))"

definition deleteDir ::
  "'s S3Client \<Rightarrow> CloudflareR2Options \<Rightarrow> string \<Rightarrow> 's world \<Rightarrow> (fs_error + unit) \<times> 's world"
where
  "deleteDir cl opts path w =
     (let normalizedPath = (if endsWith path ''/'' then path else path @ ''/'');
          pfx = getR2Key opts normalizedPath
      in case sendList cl (bucket opts) pfx None w of
           (Inl error, w1) \<Rightarrow> (Inl (Failed_to_delete_directory path error), w1)
         | (Inr listResponse, w1) \<Rightarrow>
             (case Contents listResponse of
                None \<Rightarrow> (Inr (), w1)
              | Some contents \<Rightarrow>
                  if contents = [] then (Inr (), w1)
                  else
                    (let objects =
                           map (\<lambda>obj. the (Key obj))
                             (filter (\<lambda>obj. Key obj \<noteq> None \<and> Key obj \<noteq> Some []) contents)
                     in if objects \<noteq> [] then
                          (case sendDeleteObjects cl (bucket opts) objects w1 of
                             (Inl error, w2) \<Rightarrow>
                               (Inl (Failed_to_delete_directory path error), w2)
                           | (Inr _, w2) \<Rightarrow> (Inr (), fold cache_delete objects w2))
                        else (Inr (), w1))))"

definition stat ::
  "'s S3Client \<Rightarrow> CloudflareR2Options \<Rightarrow> (nat \<Rightarrow> date) \<Rightarrow> string \<Rightarrow> 's world \<Rightarrow>
   (fs_error + FileStats) \<times> 's world"
where
  "stat cl opts clock path w =
     (let key = getR2Key opts path
      in case cache w key of
           Some cached \<Rightarrow>
             (Inr \<lparr>size_s = size_e cached, mtime = lastModified cached,
                   ctime = lastModified cached, atime = lastModified cached, mode = 420,
                   isFile = True, isDirectory = False, isSymbolicLink = False\<rparr>, w)
         | None \<Rightarrow>
             (case sendHead cl (bucket opts) key w of
                (Inl error, w1) \<Rightarrow>
                  (Inl (if isNotFoundError error then File_not_found path
                        else Failed_to_get_file_stats path error), w1)
              | (Inr response, w1) \<Rightarrow>
                  (let stats =
                         \<lparr>size_s = (case ContentLength response of None \<Rightarrow> 0 | Some n \<Rightarrow> n),
                          mtime = (case LastModified response of None \<Rightarrow> clock 0 | Some t \<Rightarrow> t),
                          ctime = (case LastModified response of None \<Rightarrow> clock 1 | Some t \<Rightarrow> t),
                          atime = (case LastModified response of None \<Rightarrow> clock 2 | Some t \<Rightarrow> t),
                          mode = 420,
                          isFile = True, isDirectory = False, isSymbolicLink = False\<rparr>
                   in (Inr stats,
                       cache_set key
                         \<lparr>size_e = size_s stats, lastModified = mtime stats,
                          etag = or_empty (ETag response)\<rparr> w1))))"

subsection \<open>Two stores\<close>

text \<open>A store double whose every command throws the given error.\<close>

definition failing_client :: "aws_error \<Rightarrow> 's S3Client" where
  "failing_client e =
     \<lparr>send_GetObject = (\<lambda>b k s. (Inl e, s)),
      send_PutObject = (\<lambda>b k body ct s. (Inl e, s)),
      send_HeadObject = (\<lambda>b k s. (Inl e, s)),
      send_DeleteObject = (\<lambda>b k s. (Inl e, s)),
      send_ListObjectsV2 = (\<lambda>b p d s. (Inl e, s)),
      send_DeleteObjects = (\<lambda>b ks s. (Inl e, s))\<rparr>"

text \<open>
  Modelled from the spec: the object store behind the client (the R2 service, which is
  not code of this repository), as the ObjectStore boundary of the spec's section 6
  describes it: \<^verbatim>\<open>get\<close> and \<^verbatim>\<open>head\<close> answer not-found for a missing key, \<^verbatim>\<open>put\<close>
  stores the bytes and answers an identifier, \<^verbatim>\<open>delete\<close> and \<^verbatim>\<open>batchDelete\<close> do not
  fail on a missing key, and \<^verbatim>\<open>list\<close> answers every object under the prefix in one
  response, grouped at the delimiter when one is given. The bucket is a list of keys with
  their objects, listed in the order in which it holds them; a body is streamed in
  chunks of \<open>n\<close> bytes; \<open>t\<close> is the service's time and \<open>h\<close> its function from a body to
  an identifier.
\<close>

record R2Object =
  httpBody :: string
  httpContentType :: string
  uploaded :: date
  httpEtag :: string

type_synonym r2_bucket = "(string \<times> R2Object) list"

fun chunksOf :: "nat \<Rightarrow> string \<Rightarrow> string list" where
  "chunksOf n s =
     (if n = 0 \<or> length s \<le> n then [s] else take n s # chunksOf n (drop n s))"

declare chunksOf.simps [simp del]

definition not_found :: "string \<Rightarrow> aws_error" where
  "not_found nm = \<lparr>name = Some nm, httpStatusCode = Some 404\<rparr>"

definition r2_get ::
  "nat \<Rightarrow> string \<Rightarrow> string \<Rightarrow> r2_bucket \<Rightarrow> (aws_error + GetObjectCommandOutput) \<times> r2_bucket"
where
  "r2_get n b k s =
     (case map_of s k of
        None \<Rightarrow> (Inl (not_found ''NoSuchKey''), s)
      | Some obj \<Rightarrow>
          (Inr \<lparr>ETag = Some (httpEtag obj), LastModified = Some (uploaded obj),
                ContentLength = Some (length (httpBody obj)),
                Body = Some (Stream (chunksOf n (httpBody obj)) None)\<rparr>, s))"

definition r2_put ::
  "date \<Rightarrow> (string \<Rightarrow> string) \<Rightarrow> string \<Rightarrow> string \<Rightarrow> string \<Rightarrow> string \<Rightarrow> r2_bucket \<Rightarrow>
   (aws_error + PutObjectCommandOutput) \<times> r2_bucket"
where
  "r2_put t h b k body ct s =
     (Inr \<lparr>ETag = Some (h body)\<rparr>,
      AList.update k
        \<lparr>httpBody = body, httpContentType = ct, uploaded = t, httpEtag = h body\<rparr> s)"

definition r2_head ::
  "string \<Rightarrow> string \<Rightarrow> r2_bucket \<Rightarrow> (aws_error + HeadObjectCommandOutput) \<times> r2_bucket"
where
  "r2_head b k s =
     (case map_of s k of
        None \<Rightarrow> (Inl (not_found ''NotFound''), s)
      | Some obj \<Rightarrow>
          (Inr \<lparr>ETag = Some (httpEtag obj), LastModified = Some (uploaded obj),
                ContentLength = Some (length (httpBody obj))\<rparr>, s))"

definition r2_delete :: "string \<Rightarrow> string \<Rightarrow> r2_bucket \<Rightarrow> (aws_error + unit) \<times> r2_bucket" where
  "r2_delete b k s = (Inr (), AList.delete k s)"

definition r2_deleteObjects ::
  "string \<Rightarrow> string list \<Rightarrow> r2_bucket \<Rightarrow> (aws_error + unit) \<times> r2_bucket"
where
  "r2_deleteObjects b ks s = (Inr (), fold AList.delete ks s)"

definition listed :: "string \<times> R2Object \<Rightarrow> S3Object" where
  "listed kv =
     \<lparr>ETag = Some (httpEtag (snd kv)), LastModified = Some (uploaded (snd kv)),
      Key = Some (fst kv), Size = Some (length (httpBody (snd kv)))\<rparr>"

definition optional :: "'a list \<Rightarrow> 'a list option" where
  "optional xs = (if xs = [] then None else Some xs)"

definition r2_list ::
  "string \<Rightarrow> string \<Rightarrow> char option \<Rightarrow> r2_bucket \<Rightarrow>
   (aws_error + ListObjectsV2CommandOutput) \<times> r2_bucket"
where
  "r2_list b pfx delimiter s =
     (let matching = filter (\<lambda>kv. startsWith (fst kv) pfx) s
      in case delimiter of
           None \<Rightarrow>
             (Inr \<lparr>Contents = optional (map listed matching), CommonPrefixes = None\<rparr>, s)
         | Some d \<Rightarrow>
             (Inr \<lparr>Contents =
                     optional (map listed
                       (filter (\<lambda>kv. d \<notin> set (drop (length pfx) (fst kv))) matching)),
                   CommonPrefixes =
                     optional (map (\<lambda>p. \<lparr>Prefix = Some p\<rparr>)
                       (remdups (map
                          (\<lambda>kv. pfx @ takeWhile (\<lambda>c. c \<noteq> d) (drop (length pfx) (fst kv)) @ [d])
                          (filter (\<lambda>kv. d \<in> set (drop (length pfx) (fst kv))) matching))))\<rparr>,
              s))"

definition r2_client :: "nat \<Rightarrow> date \<Rightarrow> (string \<Rightarrow> string) \<Rightarrow> r2_bucket S3Client" where
  "r2_client n t h =
     \<lparr>send_GetObject = r2_get n,
      send_PutObject = r2_put t h,
      send_HeadObject = r2_head,
      send_DeleteObject = r2_delete,
      send_ListObjectsV2 = r2_list,
      send_DeleteObjects = r2_deleteObjects\<rparr>"

subsection \<open>Keys under a prefix\<close>

text \<open>What \<^verbatim>\<open>getR2Key\<close> puts in front of a path: the prefix and a slash, or nothing.\<close>

definition namespace :: "CloudflareR2Options \<Rightarrow> string" where
  "namespace opts = (if prefix opts \<noteq> [] then prefix opts @ ''/'' else [])"

text \<open>The keys of a bucket that start with a prefix, in the order of the bucket.\<close>

definition under :: "string \<Rightarrow> r2_bucket \<Rightarrow> string list" where
  "under pfx s = map fst (filter (\<lambda>kv. startsWith (fst kv) pfx) s)"

subsection \<open>Concrete inputs\<close>

definition internal_error :: aws_error where
  "internal_error = \<lparr>name = Some ''InternalError'', httpStatusCode = Some 500\<rparr>"

definition entry0 :: R2CacheEntry where
  "entry0 = \<lparr>size_e = 11, lastModified = 1700000000000, etag = ''abc''\<rparr>"

definition opts0 :: CloudflareR2Options where
  "opts0 = \<lparr>bucket = ''my-bucket'', prefix = ''ns''\<rparr>"

definition cached_world :: "unit world" where
  "cached_world = \<lparr>cache = [''ns/a.txt'' \<mapsto> entry0], store = (), sent = []\<rparr>"

definition empty_world :: "unit world" where
  "empty_world = \<lparr>cache = Map.empty, store = (), sent = []\<rparr>"

text \<open>A store double whose \<^verbatim>\<open>get\<close> succeeds with a response that carries nothing.\<close>

definition bodiless_client :: "'s S3Client" where
  "bodiless_client =
     (failing_client internal_error)
       \<lparr>send_GetObject :=
          (\<lambda>b k s. (Inr \<lparr>ETag = None, LastModified = None, ContentLength = None, Body = None\<rparr>, s))\<rparr>"

definition object0 :: R2Object where
  "object0 = \<lparr>httpBody = ''hello world'', httpContentType = ''text/plain'',
               uploaded = 1700000000000, httpEtag = ''abc''\<rparr>"

definition r2_world :: "r2_bucket world" where
  "r2_world = \<lparr>cache = [''ns/a.txt'' \<mapsto> entry0], store = [(''ns/d/a.txt'', object0), (''ns/a.txt'', object0)], sent = []\<rparr>"


definition cafe :: string where
  "cafe = [CHR ''c'', CHR ''a'', CHR ''f'', CHR 0xC3, CHR 0xA9]"


definition listing_world :: "r2_bucket world" where
  "listing_world =
     \<lparr>cache = Map.empty,
      store = [(''ns/d/sub/c.md'', object0), (''ns/d/a.txt'', object0), (''ns/d/b.json'', object0)],
      sent = []\<rparr>"

section \<open>Properties\<close>

lemma toString_utf8_wellformed: "utf8_wellformed bs \<Longrightarrow> toString_utf8 bs = bs"
proof (induction bs rule: utf8_wellformed.induct)
  case 1
  show ?case by simp
next
  case (2 b bs)
  show ?case
  proof (cases "in_range b 0x00 0x7F")
    case True
    with 2 show ?thesis by simp
  next
    case a: False
    show ?thesis
    proof (cases "in_range b 0xC2 0xDF")
      case True
      with a 2(2,5) show ?thesis by (cases bs) simp_all
    next
      case b: False
      show ?thesis
      proof (cases "in_range b 0xE0 0xEF")
        case True
        with a b 2(3,5) show ?thesis
          by (cases bs; simp) (rename_tac c1 r1, case_tac r1; simp)
      next
        case c: False
        show ?thesis
        proof (cases "in_range b 0xF0 0xF4")
          case True
          with a b c 2(4,5) show ?thesis
            by (cases bs; simp) (rename_tac c1 r1, case_tac r1; simp; rename_tac c2 r2, case_tac r2; simp)
        next
          case False
          with a b c 2(5) show ?thesis by simp
        qed
      qed
    qed
  qed
qed

subsection \<open>A thrown error leaves the cache as it was\<close>

lemma cache_sendGet: "cache (snd (sendGet cl b k w)) = cache w"
  by (simp add: sendGet_def split: prod.splits)
lemma cache_sendPut: "cache (snd (sendPut cl b k body ct w)) = cache w"
  by (simp add: sendPut_def split: prod.splits)
lemma cache_sendHead: "cache (snd (sendHead cl b k w)) = cache w"
  by (simp add: sendHead_def split: prod.splits)
lemma cache_sendDelete: "cache (snd (sendDelete cl b k w)) = cache w"
  by (simp add: sendDelete_def split: prod.splits)
lemma cache_sendList: "cache (snd (sendList cl b p d w)) = cache w"
  by (simp add: sendList_def split: prod.splits)
lemma cache_sendDeleteObjects: "cache (snd (sendDeleteObjects cl b ks w)) = cache w"
  by (simp add: sendDeleteObjects_def split: prod.splits)

lemma readFile_throws: "fst (readFile cl opts p w) = Inl e \<Longrightarrow> cache (snd (readFile cl opts p w)) = cache w"
  using cache_sendGet [of cl "bucket opts" "getR2Key opts p" w]
  by (auto simp: readFile_def Let_def split: prod.splits sum.splits)

lemma writeFile_throws: "fst (writeFile cl opts clock p c w) = Inl e \<Longrightarrow> cache (snd (writeFile cl opts clock p c w)) = cache w"
  using cache_sendPut [of cl "bucket opts" "getR2Key opts p" c "getContentType p" w]
  by (auto simp: writeFile_def Let_def split: prod.splits sum.splits)

lemma exists_throws: "fst (exists cl opts p w) = Inl e \<Longrightarrow> cache (snd (exists cl opts p w)) = cache w"
  using cache_sendHead [of cl "bucket opts" "getR2Key opts p" w]
  by (auto simp: exists_def Let_def split: prod.splits sum.splits if_splits)

lemma stat_throws: "fst (stat cl opts clock p w) = Inl e \<Longrightarrow> cache (snd (stat cl opts clock p w)) = cache w"
  using cache_sendHead [of cl "bucket opts" "getR2Key opts p" w]
  by (auto simp: stat_def Let_def split: prod.splits sum.splits option.splits)

lemma deleteFile_throws: "fst (deleteFile cl opts p w) = Inl e \<Longrightarrow> cache (snd (deleteFile cl opts p w)) = cache w"
  using cache_sendDelete [of cl "bucket opts" "getR2Key opts p" w]
  by (auto simp: deleteFile_def Let_def split: prod.splits sum.splits if_splits)

lemma readDir_throws: "fst (readDir cl opts p w) = Inl e \<Longrightarrow> cache (snd (readDir cl opts p w)) = cache w"
proof -
  assume a: "fst (readDir cl opts p w) = Inl e"
  define np where "np = (if endsWith p ''/'' then p else p @ ''/'')"
  define pfx where "pfx = getR2Key opts np"
  obtain r w1 where l: "sendList cl (bucket opts) pfx (Some CHR ''/'') w = (r, w1)"
    by (cases "sendList cl (bucket opts) pfx (Some CHR ''/'') w")
  have c1: "cache w1 = cache w"
    using cache_sendList [of cl "bucket opts" pfx "Some CHR ''/''" w] l by simp
  show ?thesis
  proof (cases r)
    case (Inl err)
    then show ?thesis using l c1 by (simp add: readDir_def Let_def np_def pfx_def)
  next
    case (Inr resp)
    then show ?thesis using a l
      by (simp add: readDir_def Let_def np_def pfx_def split: prod.splits)
  qed
qed

lemma deleteDir_throws: "fst (deleteDir cl opts p w) = Inl e \<Longrightarrow> cache (snd (deleteDir cl opts p w)) = cache w"
proof -
  assume a: "fst (deleteDir cl opts p w) = Inl e"
  define np where "np = (if endsWith p ''/'' then p else p @ ''/'')"
  define pfx where "pfx = getR2Key opts np"
  obtain r w1 where l: "sendList cl (bucket opts) pfx None w = (r, w1)" by (cases "sendList cl (bucket opts) pfx None w")
  have c1: "cache w1 = cache w" using cache_sendList [of cl "bucket opts" pfx None w] l by simp
  show ?thesis
  proof (cases r)
    case (Inl err)
    then show ?thesis using l c1 by (simp add: deleteDir_def Let_def np_def pfx_def)
  next
    case (Inr resp)
    show ?thesis
    proof (cases "Contents resp")
      case None
      then show ?thesis using a l Inr by (simp add: deleteDir_def Let_def np_def pfx_def)
    next
      case (Some contents)
      define objects where "objects = map (\<lambda>obj. the (Key obj)) (filter (\<lambda>obj. Key obj \<noteq> None \<and> Key obj \<noteq> Some []) contents)"
      obtain r2 w2 where d: "sendDeleteObjects cl (bucket opts) objects w1 = (r2, w2)"
        by (cases "sendDeleteObjects cl (bucket opts) objects w1")
      have c2: "cache w2 = cache w1" using cache_sendDeleteObjects [of cl "bucket opts" objects w1] d by simp
      show ?thesis using a l Inr Some d c1 c2
        by (cases r2) (auto simp: deleteDir_def Let_def np_def pfx_def objects_def split: if_splits)
    qed
  qed
qed

lemma failing_simps:
  "send_GetObject (failing_client e) = (\<lambda>b k s. (Inl e, s))"
  "send_PutObject (failing_client e) = (\<lambda>b k body ct s. (Inl e, s))"
  "send_HeadObject (failing_client e) = (\<lambda>b k s. (Inl e, s))"
  "send_DeleteObject (failing_client e) = (\<lambda>b k s. (Inl e, s))"
  "send_ListObjectsV2 (failing_client e) = (\<lambda>b p d s. (Inl e, s))"
  "send_DeleteObjects (failing_client e) = (\<lambda>b ks s. (Inl e, s))"
  by (simp_all add: failing_client_def)


text \<open>
  C9. For every client and every state, an operation that ends by throwing (\<^verbatim>\<open>readFile\<close>,
  \<^verbatim>\<open>writeFile\<close>, \<^verbatim>\<open>exists\<close>, \<^verbatim>\<open>stat\<close>, \<^verbatim>\<open>readDir\<close>, \<^verbatim>\<open>deleteDir\<close>, and
  \<^verbatim>\<open>deleteFile\<close>, which throws only on an error that is not a not-found error) returns
  the cache that it received: the cache is changed only after the store call succeeded.
\<close>

theorem throwing_keeps_cache:
  "(isl (fst (readFile cl opts p w)) \<longrightarrow> cache (snd (readFile cl opts p w)) = cache w) \<and>
   (isl (fst (writeFile cl opts clock p c w)) \<longrightarrow>
      cache (snd (writeFile cl opts clock p c w)) = cache w) \<and>
   (isl (fst (exists cl opts p w)) \<longrightarrow> cache (snd (exists cl opts p w)) = cache w) \<and>
   (isl (fst (stat cl opts clock p w)) \<longrightarrow> cache (snd (stat cl opts clock p w)) = cache w) \<and>
   (isl (fst (readDir cl opts p w)) \<longrightarrow> cache (snd (readDir cl opts p w)) = cache w) \<and>
   (isl (fst (deleteDir cl opts p w)) \<longrightarrow> cache (snd (deleteDir cl opts p w)) = cache w) \<and>
   (isl (fst (deleteFile cl opts p w)) \<longrightarrow> cache (snd (deleteFile cl opts p w)) = cache w)"
  using readFile_throws [of cl opts p w] writeFile_throws [of cl opts clock p c w]
    exists_throws [of cl opts p w] stat_throws [of cl opts clock p w]
    readDir_throws [of cl opts p w] deleteDir_throws [of cl opts p w]
    deleteFile_throws [of cl opts p w]
  by (simp add: isl_def) blast

theorem throwing_keeps_cache_witness:
  "isl (fst (readFile (failing_client internal_error) opts0 ''b.txt'' cached_world)) \<and>
   isl (fst (writeFile (failing_client internal_error) opts0 (\<lambda>n. 0) ''b.txt'' ''hello'' cached_world)) \<and>
   isl (fst (exists (failing_client internal_error) opts0 ''b.txt'' cached_world)) \<and>
   isl (fst (stat (failing_client internal_error) opts0 (\<lambda>n. 0) ''b.txt'' cached_world)) \<and>
   isl (fst (readDir (failing_client internal_error) opts0 ''b.txt'' cached_world)) \<and>
   isl (fst (deleteDir (failing_client internal_error) opts0 ''b.txt'' cached_world)) \<and>
   isl (fst (deleteFile (failing_client internal_error) opts0 ''b.txt'' cached_world)) \<and>
   cache (snd (readFile (failing_client internal_error) opts0 ''b.txt'' cached_world)) = cache cached_world \<and>
   cache (snd (writeFile (failing_client internal_error) opts0 (\<lambda>n. 0) ''b.txt'' ''hello'' cached_world)) = cache cached_world \<and>
   cache (snd (exists (failing_client internal_error) opts0 ''b.txt'' cached_world)) = cache cached_world \<and>
   cache (snd (stat (failing_client internal_error) opts0 (\<lambda>n. 0) ''b.txt'' cached_world)) = cache cached_world \<and>
   cache (snd (readDir (failing_client internal_error) opts0 ''b.txt'' cached_world)) = cache cached_world \<and>
   cache (snd (deleteDir (failing_client internal_error) opts0 ''b.txt'' cached_world)) = cache cached_world \<and>
   cache (snd (deleteFile (failing_client internal_error) opts0 ''b.txt'' cached_world)) = cache cached_world"
proof -
  have k: "getR2Key opts0 ''b.txt'' = ''ns/b.txt''"
    by (simp add: getR2Key_def opts0_def startsWith_def)
  have nf: "\<not> isNotFoundError internal_error"
    by (simp add: isNotFoundError_def internal_error_def)
  have miss: "cache cached_world ''ns/b.txt'' = None"
    by (simp add: cached_world_def)
  have 1: "isl (fst (readFile (failing_client internal_error) opts0 ''b.txt'' cached_world))"
    by (simp add: readFile_def sendGet_def failing_simps)
  have 2: "isl (fst (writeFile (failing_client internal_error) opts0 (\<lambda>n. 0) ''b.txt'' ''hello'' cached_world))"
    by (simp add: writeFile_def sendPut_def failing_simps)
  have 3: "isl (fst (exists (failing_client internal_error) opts0 ''b.txt'' cached_world))"
    by (simp add: exists_def sendHead_def failing_simps k nf miss)
  have 4: "isl (fst (stat (failing_client internal_error) opts0 (\<lambda>n. 0) ''b.txt'' cached_world))"
    by (simp add: stat_def sendHead_def failing_simps k nf miss)
  have 5: "isl (fst (readDir (failing_client internal_error) opts0 ''b.txt'' cached_world))"
    by (simp add: readDir_def sendList_def failing_simps)
  have 6: "isl (fst (deleteDir (failing_client internal_error) opts0 ''b.txt'' cached_world))"
    by (simp add: deleteDir_def sendList_def failing_simps)
  have 7: "isl (fst (deleteFile (failing_client internal_error) opts0 ''b.txt'' cached_world))"
    by (simp add: deleteFile_def sendDelete_def failing_simps nf)
  show ?thesis
    using 1 2 3 4 5 6 7
      throwing_keeps_cache [of "failing_client internal_error" opts0 "''b.txt''" cached_world
        "\<lambda>n. 0" "''hello''"]
    by simp
qed

subsection \<open>Statistics from the cache\<close>

text \<open>
  C7. If the cache holds an entry for the encoded key of the path, \<^verbatim>\<open>stat\<close> returns the
  statistics made from that entry alone (the size of the entry; its \<^verbatim>\<open>lastModified\<close> as
  \<^verbatim>\<open>mtime\<close>, \<^verbatim>\<open>ctime\<close> and \<^verbatim>\<open>atime\<close>; a file, not a directory, not a symbolic link) and
  the state as it was: no command is sent, whatever the client is.
\<close>

theorem stat_cached:
  assumes "cache w (getR2Key opts p) = Some entry"
  shows "stat cl opts clock p w =
           (Inr \<lparr>size_s = size_e entry, mtime = lastModified entry, ctime = lastModified entry,
                 atime = lastModified entry, mode = 420, isFile = True, isDirectory = False,
                 isSymbolicLink = False\<rparr>, w)"
  using assms by (simp add: stat_def)

theorem stat_cached_witness:
  "cache cached_world (getR2Key opts0 ''a.txt'') = Some entry0 \<and>
   stat (failing_client internal_error) opts0 (\<lambda>n. 0) ''/a.txt'' cached_world =
     (Inr \<lparr>size_s = 11, mtime = 1700000000000, ctime = 1700000000000,
           atime = 1700000000000, mode = 420, isFile = True, isDirectory = False,
           isSymbolicLink = False\<rparr>, cached_world) \<and>
   sent (snd (stat (failing_client internal_error) opts0 (\<lambda>n. 0) ''/a.txt'' cached_world)) = []"
proof -
  have k: "getR2Key opts0 ''a.txt'' = ''ns/a.txt''" "getR2Key opts0 ''/a.txt'' = ''ns/a.txt''"
    by (simp_all add: getR2Key_def opts0_def startsWith_def slice_def)
  have h: "cache cached_world (getR2Key opts0 ''/a.txt'') = Some entry0"
    by (simp add: k cached_world_def)
  show ?thesis
    using h stat_cached [OF h, of "failing_client internal_error" "\<lambda>n. 0"]
    by (simp add: k entry0_def) (simp add: cached_world_def)
qed

subsection \<open>Reading a response without a body\<close>

text \<open>
  C10. If the store's \<^verbatim>\<open>get\<close> for the key succeeds and the response carries no body,
  \<^verbatim>\<open>readFile\<close> returns the empty string and does not fail.
\<close>

theorem readFile_no_body:
  assumes "fst (send_GetObject cl (bucket opts) (getR2Key opts p) (store w)) = Inr response"
    and "Body response = None"
  shows "fst (readFile cl opts p w) = Inr []"
  using assms
  by (cases "send_GetObject cl (bucket opts) (getR2Key opts p) (store w)")
     (simp add: readFile_def sendGet_def streamToString_def Let_def)

theorem readFile_no_body_witness:
  "fst (send_GetObject bodiless_client (bucket opts0) (getR2Key opts0 ''a.txt'') (store empty_world)) =
     Inr \<lparr>ETag = None, LastModified = None, ContentLength = None, Body = None\<rparr> \<and>
   Body \<lparr>ETag = None, LastModified = None, ContentLength = None, Body = None\<rparr> = None \<and>
   fst (readFile bodiless_client opts0 ''a.txt'' empty_world) = Inr []"
proof -
  have 1: "fst (send_GetObject bodiless_client (bucket opts0) (getR2Key opts0 ''a.txt'') (store empty_world)) =
     Inr \<lparr>ETag = None, LastModified = None, ContentLength = None, Body = None\<rparr>"
    by (simp add: bodiless_client_def)
  have 2: "Body \<lparr>ETag = None, LastModified = None, ContentLength = None, Body = None\<rparr> = None"
    by simp
  show ?thesis using 1 2 readFile_no_body [OF 1 2] by simp
qed

subsection \<open>Deleting a file\<close>

text \<open>
  C2 says that \<^verbatim>\<open>deleteFile\<close> removes the cache entry whatever the store answers. With
  an entry cached for \<^verbatim>\<open>ns/a.txt\<close> and a store whose delete throws, the entry is still
  there afterwards: both when the error is a not-found error, which \<^verbatim>\<open>deleteFile\<close>
  swallows, and when it is another error, which \<^verbatim>\<open>deleteFile\<close> throws on.
\<close>

theorem deleteFile_keeps_entry_counterexample:
  "fst (deleteFile (failing_client (not_found ''NoSuchKey'')) opts0 ''a.txt'' cached_world) = Inr () \<and>
   cache (snd (deleteFile (failing_client (not_found ''NoSuchKey'')) opts0 ''a.txt'' cached_world))
     (getR2Key opts0 ''a.txt'') = Some entry0 \<and>
   fst (deleteFile (failing_client internal_error) opts0 ''a.txt'' cached_world) =
     Inl (Failed_to_delete_file ''a.txt'' internal_error) \<and>
   cache (snd (deleteFile (failing_client internal_error) opts0 ''a.txt'' cached_world))
     (getR2Key opts0 ''a.txt'') = Some entry0"
proof -
  have k: "getR2Key opts0 ''a.txt'' = ''ns/a.txt''"
    by (simp add: getR2Key_def opts0_def startsWith_def)
  have nf: "isNotFoundError (not_found ''NoSuchKey'')" "\<not> isNotFoundError internal_error"
    by (simp_all add: isNotFoundError_def not_found_def internal_error_def)
  show ?thesis
    by (simp add: deleteFile_def sendDelete_def failing_simps nf k) (simp add: cached_world_def)
qed

text \<open>
  C2, amended. \<^verbatim>\<open>deleteFile\<close> removes the cache entry for the encoded key exactly when
  the store's delete succeeds. When the store's delete throws, the cache is left as it
  was: a not-found error is swallowed and \<^verbatim>\<open>deleteFile\<close> succeeds, any other error is
  thrown on as a failure to delete the file.
\<close>

theorem deleteFile_cache:
  "cache (snd (deleteFile cl opts p w)) =
     (case fst (send_DeleteObject cl (bucket opts) (getR2Key opts p) (store w)) of
        Inl e \<Rightarrow> cache w
      | Inr u \<Rightarrow> (cache w)(getR2Key opts p := None)) \<and>
   fst (deleteFile cl opts p w) =
     (case fst (send_DeleteObject cl (bucket opts) (getR2Key opts p) (store w)) of
        Inl e \<Rightarrow> if isNotFoundError e then Inr () else Inl (Failed_to_delete_file p e)
      | Inr u \<Rightarrow> Inr ())"
  by (cases "send_DeleteObject cl (bucket opts) (getR2Key opts p) (store w)")
     (auto simp: deleteFile_def sendDelete_def cache_delete_def Let_def split: sum.splits)

theorem deleteFile_cache_witness:
  "cache (snd (deleteFile (r2_client 4 0 (\<lambda>b. ''etag'')) opts0 ''a.txt'' r2_world)) = Map.empty \<and>
   fst (deleteFile (r2_client 4 0 (\<lambda>b. ''etag'')) opts0 ''a.txt'' r2_world) = Inr ()"
proof -
  have k: "getR2Key opts0 ''a.txt'' = ''ns/a.txt''"
    by (simp add: getR2Key_def opts0_def startsWith_def)
  show ?thesis
    using deleteFile_cache [of "r2_client 4 0 (\<lambda>b. ''etag'')" opts0 "''a.txt''" r2_world]
    by (simp add: k r2_client_def r2_delete_def) (simp add: r2_world_def)
qed

subsection \<open>Writing, reading, existence and deletion on the store\<close>

lemma concat_chunksOf: "concat (chunksOf n s) = s"
proof (induction n s rule: chunksOf.induct)
  case (1 n s)
  show ?case
  proof (cases "n = 0 \<or> length s \<le> n")
    case True
    then show ?thesis by (subst chunksOf.simps) simp
  next
    case False
    then have "concat (chunksOf n (drop n s)) = drop n s" using 1 by simp
    with False show ?thesis by (subst chunksOf.simps) simp
  qed
qed

lemma r2_simps:
  "send_GetObject (r2_client n t h) = r2_get n"
  "send_PutObject (r2_client n t h) = r2_put t h"
  "send_HeadObject (r2_client n t h) = r2_head"
  "send_DeleteObject (r2_client n t h) = r2_delete"
  "send_ListObjectsV2 (r2_client n t h) = r2_list"
  "send_DeleteObjects (r2_client n t h) = r2_deleteObjects"
  by (simp_all add: r2_client_def)

lemma isNotFoundError_not_found: "isNotFoundError (not_found nm)"
  by (simp add: isNotFoundError_def not_found_def)

lemma writeFile_r2:
  "writeFile (r2_client n t h) opts clock p c w =
     (Inr (),
      \<lparr>cache = (cache w)(getR2Key opts p \<mapsto>
                 \<lparr>size_e = length c, lastModified = clock 0, etag = h c\<rparr>),
       store = AList.update (getR2Key opts p)
                 \<lparr>httpBody = c, httpContentType = getContentType p, uploaded = t, httpEtag = h c\<rparr>
                 (store w),
       sent = sent w @ [PutObjectCommand (bucket opts) (getR2Key opts p) c (getContentType p)]\<rparr>)"
  by (simp add: writeFile_def sendPut_def r2_simps r2_put_def cache_set_def or_empty_def Let_def)

lemma readFile_r2_present:
  assumes "map_of (store w) (getR2Key opts p) = Some obj"
  shows "fst (readFile (r2_client n t h) opts p w) = Inr (toString_utf8 (httpBody obj))"
  using assms
  by (simp add: readFile_def sendGet_def r2_simps r2_get_def streamToString_def Let_def
      concat_chunksOf)

text \<open>
  C1. For every path and every well-formed UTF-8 string \<open>c\<close>, \<^verbatim>\<open>writeFile(p, c)\<close> on the
  store succeeds, and \<^verbatim>\<open>readFile(p)\<close> right after it, on the state that the write left,
  returns exactly \<open>c\<close>: whatever the cache and the bucket held before, whatever the
  namespace prefix, and in whatever chunks the store streams the body.
\<close>

theorem writeFile_readFile:
  assumes "utf8_wellformed c"
  shows "fst (writeFile (r2_client n t h) opts clock p c w) = Inr () \<and>
         fst (readFile (r2_client n t h) opts p
                (snd (writeFile (r2_client n t h) opts clock p c w))) = Inr c"
proof -
  let ?w1 = "snd (writeFile (r2_client n t h) opts clock p c w)"
  have "map_of (store ?w1) (getR2Key opts p) =
          Some \<lparr>httpBody = c, httpContentType = getContentType p, uploaded = t, httpEtag = h c\<rparr>"
    by (simp add: writeFile_r2 update_conv')
  then have "fst (readFile (r2_client n t h) opts p ?w1) = Inr (toString_utf8 c)"
    using readFile_r2_present [of ?w1 opts p _ n t h] by simp
  then show ?thesis
    using assms by (simp add: writeFile_r2 toString_utf8_wellformed)
qed


theorem writeFile_readFile_witness:
  "utf8_wellformed cafe \<and>
   fst (writeFile (r2_client 4 0 (\<lambda>b. ''etag'')) opts0 (\<lambda>n. 0) ''a.txt'' cafe r2_world) = Inr () \<and>
   fst (readFile (r2_client 4 0 (\<lambda>b. ''etag'')) opts0 ''a.txt''
          (snd (writeFile (r2_client 4 0 (\<lambda>b. ''etag'')) opts0 (\<lambda>n. 0) ''a.txt'' cafe r2_world))) =
     Inr cafe"
proof -
  have wf: "utf8_wellformed cafe"
    by (simp add: cafe_def in_range_def)
  show ?thesis
    using wf writeFile_readFile [OF wf, of 4 0 "\<lambda>b. ''etag''" opts0 "\<lambda>n. 0" "''a.txt''" r2_world]
    by simp
qed


lemma exists_cached: "cache w (getR2Key opts p) = Some e \<Longrightarrow> exists cl opts p w = (Inr True, w)"
  by (simp add: exists_def)

lemma exists_r2_absent:
  assumes "cache w (getR2Key opts p) = None" and "map_of (store w) (getR2Key opts p) = None"
  shows "exists (r2_client n t h) opts p w =
           (Inr False, w\<lparr>sent := sent w @ [HeadObjectCommand (bucket opts) (getR2Key opts p)]\<rparr>)"
  using assms
  by (simp add: exists_def sendHead_def r2_simps r2_head_def isNotFoundError_not_found Let_def)

lemma writeFile_caches:
  assumes "fst (writeFile cl opts clock p c w) = Inr ()"
  shows "cache (snd (writeFile cl opts clock p c w)) (getR2Key opts p) \<noteq> None"
  using assms
  by (auto simp: writeFile_def Let_def cache_set_def split: prod.splits sum.splits)

lemma deleteFile_r2:
  "deleteFile (r2_client n t h) opts p w =
     (Inr (),
      \<lparr>cache = (cache w)(getR2Key opts p := None),
       store = AList.delete (getR2Key opts p) (store w),
       sent = sent w @ [DeleteObjectCommand (bucket opts) (getR2Key opts p)]\<rparr>)"
  by (simp add: deleteFile_def sendDelete_def r2_simps r2_delete_def cache_delete_def Let_def)

text \<open>
  C3. After a \<^verbatim>\<open>writeFile(p, c)\<close> that succeeded, on any client, \<^verbatim>\<open>exists(p)\<close> returns true
  (from the cache, so on any client). On the store, \<^verbatim>\<open>deleteFile(p)\<close> succeeds and
  \<^verbatim>\<open>exists(p)\<close> right after it returns false, whatever the cache and the bucket held
  before.
\<close>

theorem exists_after_writeFile_deleteFile:
  "(fst (writeFile cl opts clock p c w) = Inr () \<longrightarrow>
      fst (exists cl' opts p (snd (writeFile cl opts clock p c w))) = Inr True) \<and>
   fst (deleteFile (r2_client n t h) opts p v) = Inr () \<and>
   fst (exists (r2_client n t h) opts p (snd (deleteFile (r2_client n t h) opts p v))) = Inr False"
proof -
  have a: "fst (exists cl' opts p (snd (writeFile cl opts clock p c w))) = Inr True"
    if "fst (writeFile cl opts clock p c w) = Inr ()"
    using writeFile_caches [OF that] exists_cached [of _ opts p _ cl'] by fastforce
  let ?v1 = "snd (deleteFile (r2_client n t h) opts p v)"
  have "cache ?v1 (getR2Key opts p) = None" "map_of (store ?v1) (getR2Key opts p) = None"
    by (simp_all add: deleteFile_r2 delete_conv')
  then have b: "fst (exists (r2_client n t h) opts p ?v1) = Inr False"
    using exists_r2_absent [of ?v1 opts p n t h] by simp
  show ?thesis using a b by (simp add: deleteFile_r2)
qed

theorem exists_after_writeFile_deleteFile_witness:
  "fst (writeFile (r2_client 4 0 (\<lambda>b. ''etag'')) opts0 (\<lambda>n. 0) ''a.txt'' ''hello'' r2_world) = Inr () \<and>
   fst (exists (failing_client internal_error) opts0 ''a.txt''
          (snd (writeFile (r2_client 4 0 (\<lambda>b. ''etag'')) opts0 (\<lambda>n. 0) ''a.txt'' ''hello'' r2_world))) =
     Inr True \<and>
   fst (deleteFile (r2_client 4 0 (\<lambda>b. ''etag'')) opts0 ''a.txt'' r2_world) = Inr () \<and>
   fst (exists (r2_client 4 0 (\<lambda>b. ''etag'')) opts0 ''a.txt''
          (snd (deleteFile (r2_client 4 0 (\<lambda>b. ''etag'')) opts0 ''a.txt'' r2_world))) = Inr False"
proof -
  have 1: "fst (writeFile (r2_client 4 0 (\<lambda>b. ''etag'')) opts0 (\<lambda>n. 0) ''a.txt'' ''hello'' r2_world) = Inr ()"
    by (simp add: writeFile_r2)
  show ?thesis
    using 1 exists_after_writeFile_deleteFile [of "r2_client 4 0 (\<lambda>b. ''etag'')" opts0 "\<lambda>n. 0"
        "''a.txt''" "''hello''" r2_world "failing_client internal_error" 4 0 "\<lambda>b. ''etag''" r2_world]
    by simp
qed

subsection \<open>Deleting a directory on the store\<close>

lemma getR2Key_namespace:
  "\<not> startsWith p ''/'' \<Longrightarrow> getR2Key opts p = namespace opts @ p"
  by (simp add: getR2Key_def namespace_def)

lemma startsWith_append: "startsWith (xs @ ys) (xs @ zs) = startsWith ys zs"
  by (simp add: startsWith_def)

lemma map_of_fold_delete:
  "map_of (fold AList.delete ks s) k = (if k \<in> set ks then None else map_of s k)"
  by (induction ks arbitrary: s) (simp_all add: delete_conv')

lemma cache_fold_delete:
  "cache (fold cache_delete ks w) k = (if k \<in> set ks then None else cache w k)"
  by (induction ks arbitrary: w) (simp_all add: cache_delete_def)

lemma store_fold_delete: "store (fold cache_delete ks w) = store w"
  by (induction ks arbitrary: w) (simp_all add: cache_delete_def)

lemma sent_fold_delete: "sent (fold cache_delete ks w) = sent w"
  by (induction ks arbitrary: w) (simp_all add: cache_delete_def)

lemma set_under: "set (under pfx s) = {k \<in> fst ` set s. startsWith k pfx}"
  by (auto simp: under_def)

lemma keys_listed:
  assumes "pfx \<noteq> []"
  shows "map (\<lambda>obj. the (Key obj))
           (filter (\<lambda>obj. Key obj \<noteq> None \<and> Key obj \<noteq> Some [])
              (map listed (filter (\<lambda>kv. startsWith (fst kv) pfx) s))) = under pfx s"
proof -
  have "startsWith k pfx \<Longrightarrow> k \<noteq> []" for k
    using assms by (auto simp: startsWith_def)
  then show ?thesis
    by (induction s) (auto simp: under_def listed_def)
qed

lemma deleteDir_r2:
  assumes "\<not> endsWith path ''/''" and "getR2Key opts (path @ ''/'') \<noteq> []"
    and "under (getR2Key opts (path @ ''/'')) (store w) \<noteq> []"
  shows "deleteDir (r2_client n t h) opts path w =
           (Inr (),
            fold cache_delete (under (getR2Key opts (path @ ''/'')) (store w))
              (w\<lparr>store := fold AList.delete (under (getR2Key opts (path @ ''/'')) (store w)) (store w),
                 sent := sent w @
                   [ListObjectsV2Command (bucket opts) (getR2Key opts (path @ ''/'')) None,
                    DeleteObjectsCommand (bucket opts)
                      (under (getR2Key opts (path @ ''/'')) (store w))]\<rparr>))"
proof -
  let ?pfx = "getR2Key opts (path @ ''/'')"
  let ?m = "filter (\<lambda>kv. startsWith (fst kv) ?pfx) (store w)"
  have ne: "?m \<noteq> []" using assms(3) by (auto simp: under_def)
  have l: "sendList (r2_client n t h) (bucket opts) ?pfx None w =
             (Inr \<lparr>Contents = Some (map listed ?m), CommonPrefixes = None\<rparr>,
              w\<lparr>sent := sent w @ [ListObjectsV2Command (bucket opts) ?pfx None]\<rparr>)"
    using ne by (simp add: sendList_def r2_simps r2_list_def optional_def Let_def)
  have k: "map (\<lambda>obj. the (Key obj))
             (filter (\<lambda>obj. Key obj \<noteq> None \<and> Key obj \<noteq> Some []) (map listed ?m)) =
           under ?pfx (store w)"
    using keys_listed [OF assms(2)] by simp
  have c: "map listed ?m \<noteq> []" using ne by simp
  show ?thesis
    apply (simp only: deleteDir_def Let_def assms(1) if_False l prod.case sum.case)
    apply (simp only: ListObjectsV2CommandOutput.simps option.case k c if_False assms(3)
             not_False_eq_True if_True)
    apply (simp add: sendDeleteObjects_def r2_simps r2_deleteObjects_def)
    done
qed

lemma exists_r2_false:
  assumes "cache w (getR2Key opts p) = None" and "map_of (store w) (getR2Key opts p) = None"
  shows "fst (exists (r2_client n t h) opts p w) = Inr False"
    and "cache (snd (exists (r2_client n t h) opts p w)) = cache w"
    and "store (snd (exists (r2_client n t h) opts p w)) = store w"
  using exists_r2_absent [OF assms, of n t h] by simp_all

text \<open>
  C6. On the store, after \<^verbatim>\<open>d/x.txt\<close> and \<^verbatim>\<open>d/y/z.txt\<close> were written, \<^verbatim>\<open>deleteDir("d")\<close>
  succeeds; it lists without a delimiter and sends one batch delete whose keys are all the
  keys of the bucket under the prefix, at every depth, the two written ones among them;
  it removes exactly these keys from the cache, and the store no longer holds them; and
  \<^verbatim>\<open>exists("d/x.txt")\<close> and then \<^verbatim>\<open>exists("d/y/z.txt")\<close> both return false. This holds
  whatever the cache and the bucket held before and whatever the namespace prefix is.
\<close>

theorem deleteDir_recursive:
  "let cl = r2_client n t h;
       w1 = snd (writeFile cl opts clock1 ''d/x.txt'' c1 w);
       w2 = snd (writeFile cl opts clock2 ''d/y/z.txt'' c2 w1);
       w3 = snd (deleteDir cl opts ''d'' w2);
       targeted = under (getR2Key opts ''d/'') (store w2)
   in fst (deleteDir cl opts ''d'' w2) = Inr () \<and>
      sent w3 = sent w2 @
        [ListObjectsV2Command (bucket opts) (getR2Key opts ''d/'') None,
         DeleteObjectsCommand (bucket opts) targeted] \<and>
      getR2Key opts ''d/x.txt'' \<in> set targeted \<and>
      getR2Key opts ''d/y/z.txt'' \<in> set targeted \<and>
      cache w3 = (\<lambda>k. if k \<in> set targeted then None else cache w2 k) \<and>
      map_of (store w3) = (\<lambda>k. if k \<in> set targeted then None else map_of (store w2) k) \<and>
      fst (exists cl opts ''d/x.txt'' w3) = Inr False \<and>
      fst (exists cl opts ''d/y/z.txt'' (snd (exists cl opts ''d/x.txt'' w3))) = Inr False"
proof -
  define cl where "cl = r2_client n t h"
  define w1 where "w1 = snd (writeFile cl opts clock1 ''d/x.txt'' c1 w)"
  define w2 where "w2 = snd (writeFile cl opts clock2 ''d/y/z.txt'' c2 w1)"
  define w3 where "w3 = snd (deleteDir cl opts ''d'' w2)"
  define pfx where "pfx = getR2Key opts ''d/''"
  define kx where "kx = getR2Key opts ''d/x.txt''"
  define ky where "ky = getR2Key opts ''d/y/z.txt''"
  define targeted where "targeted = under pfx (store w2)"
  have ns: "pfx = namespace opts @ ''d/''" "kx = namespace opts @ ''d/x.txt''"
    "ky = namespace opts @ ''d/y/z.txt''"
    by (simp_all add: pfx_def kx_def ky_def getR2Key_namespace startsWith_def)
  have sw: "startsWith kx pfx" "startsWith ky pfx"
    unfolding ns startsWith_append by (simp_all add: startsWith_def)
  have "kx \<in> fst ` set (store w1)"
    unfolding w1_def cl_def kx_def by (simp add: writeFile_r2 dom_update)
  then have "kx \<in> fst ` set (store w2)" and "ky \<in> fst ` set (store w2)"
    unfolding w2_def cl_def ky_def by (simp_all add: writeFile_r2 dom_update)
  then have mem: "kx \<in> set targeted" "ky \<in> set targeted"
    using sw by (simp_all add: targeted_def set_under)
  then have ne: "under (getR2Key opts (''d'' @ ''/'')) (store w2) \<noteq> []"
    using targeted_def pfx_def by auto
  have p: "getR2Key opts (''d'' @ ''/'') = pfx" by (simp add: pfx_def)
  have pne: "getR2Key opts (''d'' @ ''/'') \<noteq> []" using ns(1) p by simp
  have ew: "\<not> endsWith ''d'' ''/''" by (simp add: endsWith_def)
  have dd: "deleteDir cl opts ''d'' w2 =
              (Inr (),
               fold cache_delete targeted
                 (w2\<lparr>store := fold AList.delete targeted (store w2),
                     sent := sent w2 @
                       [ListObjectsV2Command (bucket opts) pfx None,
                        DeleteObjectsCommand (bucket opts) targeted]\<rparr>))"
    using deleteDir_r2 [OF ew pne ne, of n t h] unfolding cl_def p targeted_def by simp
  have c3: "cache w3 = (\<lambda>k. if k \<in> set targeted then None else cache w2 k)"
    unfolding w3_def dd by (rule ext) (simp add: cache_fold_delete)
  have s3: "map_of (store w3) = (\<lambda>k. if k \<in> set targeted then None else map_of (store w2) k)"
    unfolding w3_def dd by (rule ext) (simp add: store_fold_delete map_of_fold_delete)
  have l3: "sent w3 = sent w2 @
        [ListObjectsV2Command (bucket opts) pfx None, DeleteObjectsCommand (bucket opts) targeted]"
    unfolding w3_def dd by (simp add: sent_fold_delete)
  have ex: "fst (exists cl opts ''d/x.txt'' w3) = Inr False"
    and ex_c: "cache (snd (exists cl opts ''d/x.txt'' w3)) = cache w3"
    and ex_s: "store (snd (exists cl opts ''d/x.txt'' w3)) = store w3"
    unfolding cl_def
    using exists_r2_false [of w3 opts "''d/x.txt''" n t h] mem(1) c3 s3
    by (simp_all add: kx_def)
  have ey: "fst (exists cl opts ''d/y/z.txt'' (snd (exists cl opts ''d/x.txt'' w3))) = Inr False"
    using exists_r2_false(1) [of "snd (exists cl opts ''d/x.txt'' w3)" opts "''d/y/z.txt''" n t h]
      mem(2) c3 s3 ex_c ex_s
    by (simp add: ky_def cl_def)
  have "fst (deleteDir cl opts ''d'' w2) = Inr ()" using dd by simp
  then show ?thesis
    using l3 mem c3 s3 ex ey
    unfolding Let_def cl_def [symmetric] w1_def [symmetric] w2_def [symmetric]
      w3_def [symmetric] pfx_def [symmetric] targeted_def [symmetric] kx_def [symmetric]
      ky_def [symmetric]
    by simp
qed

theorem deleteDir_recursive_witness:
  "fst (deleteDir (r2_client 4 0 (\<lambda>b. ''etag'')) opts0 ''d''
          (snd (writeFile (r2_client 4 0 (\<lambda>b. ''etag'')) opts0 (\<lambda>n. 0) ''d/y/z.txt'' ''z''
             (snd (writeFile (r2_client 4 0 (\<lambda>b. ''etag'')) opts0 (\<lambda>n. 0) ''d/x.txt'' ''x''
                r2_world))))) = Inr () \<and>
   fst (exists (r2_client 4 0 (\<lambda>b. ''etag'')) opts0 ''d/x.txt''
          (snd (deleteDir (r2_client 4 0 (\<lambda>b. ''etag'')) opts0 ''d''
             (snd (writeFile (r2_client 4 0 (\<lambda>b. ''etag'')) opts0 (\<lambda>n. 0) ''d/y/z.txt'' ''z''
                (snd (writeFile (r2_client 4 0 (\<lambda>b. ''etag'')) opts0 (\<lambda>n. 0) ''d/x.txt'' ''x''
                   r2_world))))))) = Inr False"
  using deleteDir_recursive [of 4 0 "\<lambda>b. ''etag''" opts0 "\<lambda>n. 0" "''x''" r2_world "\<lambda>n. 0" "''z''"]
  by (simp add: Let_def)

subsection \<open>The shape of a listing\<close>

lemma getLocalPath_namespace: "getLocalPath opts (namespace opts @ x) = x"
  by (simp add: getLocalPath_def namespace_def startsWith_def slice_def)

lemma readDir_three:
  assumes "map fst s = [namespace opts @ ka, namespace opts @ kb, namespace opts @ kc]"
    and "[ka, kb, kc] \<in> {[''d/a.txt'', ''d/b.json'', ''d/sub/c.md''],
                        [''d/a.txt'', ''d/sub/c.md'', ''d/b.json''],
                        [''d/b.json'', ''d/a.txt'', ''d/sub/c.md''],
                        [''d/b.json'', ''d/sub/c.md'', ''d/a.txt''],
                        [''d/sub/c.md'', ''d/a.txt'', ''d/b.json''],
                        [''d/sub/c.md'', ''d/b.json'', ''d/a.txt'']}"
  shows "fst (readDir (r2_client n t h) opts ''d'' \<lparr>cache = c, store = s, sent = l\<rparr>) =
           Inr [''a.txt'', ''b.json'', ''sub/'']"
proof -
  obtain a b c' where s: "s = [a, b, c']"
    using assms(1) by (auto simp: map_eq_Cons_conv)
  have f: "fst a = namespace opts @ ka" "fst b = namespace opts @ kb" "fst c' = namespace opts @ kc"
    using assms(1) s by simp_all
  have p: "getR2Key opts ''d/'' = namespace opts @ ''d/''"
    by (simp add: getR2Key_namespace startsWith_def)
  show ?thesis
    using assms(2) f unfolding s
    apply (simp only: insert_iff empty_iff list.inject)
    apply (elim disjE conjE)
    apply (simp_all add: readDir_def sendList_def r2_simps r2_list_def Let_def p
        startsWith_append startsWith_def optional_def listed_def readDir_object_def
        readDir_commonPrefix_def getLocalPath_namespace substring_def includes_char_def
        replace_trailing_slash_def endsWith_def cache_metadata_def cache_set_def or_empty_def)
    done
qed

lemma three_distinct:
  assumes "distinct ks" and "set ks = {k1, k2, k3}" and "k1 \<noteq> k2" and "k1 \<noteq> k3" and "k2 \<noteq> k3"
  shows "ks \<in> {[k1, k2, k3], [k1, k3, k2], [k2, k1, k3], [k2, k3, k1], [k3, k1, k2], [k3, k2, k1]}"
proof -
  have "length ks = 3"
    using distinct_card [OF assms(1)] assms(2-5) by simp
  then obtain x y z where ks: "ks = [x, y, z]"
    by (auto simp: length_Suc_conv numeral_3_eq_3)
  have d: "x \<noteq> y" "x \<noteq> z" "y \<noteq> z" using assms(1) ks by auto
  have m: "x \<in> {k1, k2, k3}" "y \<in> {k1, k2, k3}" "z \<in> {k1, k2, k3}"
    using assms(2) ks by auto
  show ?thesis using d m unfolding ks by auto
qed

text \<open>
  C5. If the bucket holds exactly the three objects \<^verbatim>\<open>d/a.txt\<close>, \<^verbatim>\<open>d/b.json\<close> and
  \<^verbatim>\<open>d/sub/c.md\<close> under the configured namespace, in any order and with any contents,
  \<^verbatim>\<open>readDir("d")\<close> returns exactly \<^verbatim>\<open>a.txt\<close>, \<^verbatim>\<open>b.json\<close>, \<^verbatim>\<open>sub/\<close> in this, the sorted,
  order, the subdirectory marked by its trailing slash.
\<close>

theorem readDir_listing_shape:
  assumes "distinct (map fst s)"
    and "set (map fst s) =
           {getR2Key opts ''d/a.txt'', getR2Key opts ''d/b.json'', getR2Key opts ''d/sub/c.md''}"
  shows "fst (readDir (r2_client n t h) opts ''d'' \<lparr>cache = c, store = s, sent = l\<rparr>) =
           Inr [''a.txt'', ''b.json'', ''sub/'']"
proof -
  let ?ns = "namespace opts"
  have k: "getR2Key opts ''d/a.txt'' = ?ns @ ''d/a.txt''"
    "getR2Key opts ''d/b.json'' = ?ns @ ''d/b.json''"
    "getR2Key opts ''d/sub/c.md'' = ?ns @ ''d/sub/c.md''"
    by (simp_all add: getR2Key_namespace startsWith_def)
  have "map fst s \<in>
          {[?ns @ ''d/a.txt'', ?ns @ ''d/b.json'', ?ns @ ''d/sub/c.md''],
           [?ns @ ''d/a.txt'', ?ns @ ''d/sub/c.md'', ?ns @ ''d/b.json''],
           [?ns @ ''d/b.json'', ?ns @ ''d/a.txt'', ?ns @ ''d/sub/c.md''],
           [?ns @ ''d/b.json'', ?ns @ ''d/sub/c.md'', ?ns @ ''d/a.txt''],
           [?ns @ ''d/sub/c.md'', ?ns @ ''d/a.txt'', ?ns @ ''d/b.json''],
           [?ns @ ''d/sub/c.md'', ?ns @ ''d/b.json'', ?ns @ ''d/a.txt'']}"
    using three_distinct [OF assms(1), of "?ns @ ''d/a.txt''" "?ns @ ''d/b.json''"
        "?ns @ ''d/sub/c.md''"] assms(2)
    unfolding k by simp
  then consider
      "map fst s = [?ns @ ''d/a.txt'', ?ns @ ''d/b.json'', ?ns @ ''d/sub/c.md'']"
    | "map fst s = [?ns @ ''d/a.txt'', ?ns @ ''d/sub/c.md'', ?ns @ ''d/b.json'']"
    | "map fst s = [?ns @ ''d/b.json'', ?ns @ ''d/a.txt'', ?ns @ ''d/sub/c.md'']"
    | "map fst s = [?ns @ ''d/b.json'', ?ns @ ''d/sub/c.md'', ?ns @ ''d/a.txt'']"
    | "map fst s = [?ns @ ''d/sub/c.md'', ?ns @ ''d/a.txt'', ?ns @ ''d/b.json'']"
    | "map fst s = [?ns @ ''d/sub/c.md'', ?ns @ ''d/b.json'', ?ns @ ''d/a.txt'']"
    by blast
  then show ?thesis
  proof cases
    case 1 then show ?thesis by (rule readDir_three) simp
  next
    case 2 then show ?thesis by (rule readDir_three) simp
  next
    case 3 then show ?thesis by (rule readDir_three) simp
  next
    case 4 then show ?thesis by (rule readDir_three) simp
  next
    case 5 then show ?thesis by (rule readDir_three) simp
  next
    case 6 then show ?thesis by (rule readDir_three) simp
  qed
qed

theorem readDir_listing_shape_witness:
  "distinct (map fst (store listing_world)) \<and>
   set (map fst (store listing_world)) =
     {getR2Key opts0 ''d/a.txt'', getR2Key opts0 ''d/b.json'', getR2Key opts0 ''d/sub/c.md''} \<and>
   fst (readDir (r2_client 4 0 (\<lambda>b. ''etag'')) opts0 ''d'' listing_world) =
     Inr [''a.txt'', ''b.json'', ''sub/'']"
proof -
  have 1: "distinct (map fst (store listing_world))"
    by (simp add: listing_world_def)
  have 2: "set (map fst (store listing_world)) =
     {getR2Key opts0 ''d/a.txt'', getR2Key opts0 ''d/b.json'', getR2Key opts0 ''d/sub/c.md''}"
    by (auto simp: listing_world_def getR2Key_def opts0_def startsWith_def)
  have w: "listing_world = \<lparr>cache = Map.empty, store = store listing_world, sent = []\<rparr>"
    by (simp add: listing_world_def)
  show ?thesis
    using 1 2 readDir_listing_shape [OF 1 2, of 4 0 "\<lambda>b. ''etag''" Map.empty "[]"] w
    by simp
qed

subsection \<open>Listing with a leading slash\<close>

text \<open>
  C4 says that \<^verbatim>\<open>readDir("/" + p)\<close> returns the names that \<^verbatim>\<open>readDir(p)\<close> returns. With the
  prefix \<^verbatim>\<open>ns\<close> and the object \<^verbatim>\<open>ns/d/a.txt\<close> in the bucket, \<^verbatim>\<open>readDir("d")\<close> returns
  \<^verbatim>\<open>a.txt\<close> and \<^verbatim>\<open>readDir("/d")\<close> returns \<^verbatim>\<open>.txt\<close>: the local path \<^verbatim>\<open>d/a.txt\<close> has lost
  the leading slash in \<^verbatim>\<open>getR2Key\<close>, and \<^verbatim>\<open>substring\<close> still cuts the length of \<^verbatim>\<open>/d/\<close>.
\<close>

theorem readDir_leading_slash:
  "fst (readDir (r2_client 4 0 (\<lambda>b. ''etag'')) opts0 ''d'' r2_world) = Inr [''a.txt''] \<and>
   fst (readDir (r2_client 4 0 (\<lambda>b. ''etag'')) opts0 ''/d'' r2_world) = Inr [''.txt'']"
  by (simp add: readDir_def sendList_def r2_client_def r2_list_def r2_world_def opts0_def
        getR2Key_def getLocalPath_def startsWith_def endsWith_def slice_def substring_def
        includes_char_def optional_def listed_def readDir_object_def readDir_commonPrefix_def
        cache_metadata_def cache_set_def or_empty_def Let_def)

subsection \<open>The key codec\<close>

text \<open>
  C8. For every logical path that does not start with a slash and is not the configured
  prefix, decoding the encoded key gives the path back, whatever the namespace prefix,
  the empty one included.
\<close>

theorem getLocalPath_getR2Key:
  assumes "\<not> startsWith p ''/''" and "p \<noteq> prefix opts"
  shows "getLocalPath opts (getR2Key opts p) = p"
  using assms(1) by (simp add: getLocalPath_def getR2Key_def startsWith_def slice_def)

theorem getLocalPath_getR2Key_witness:
  "\<not> startsWith ''d/a.txt'' ''/'' \<and>
   ''d/a.txt'' \<noteq> prefix \<lparr>bucket = ''b'', prefix = ''ns''\<rparr> \<and>
   getLocalPath \<lparr>bucket = ''b'', prefix = ''ns''\<rparr>
     (getR2Key \<lparr>bucket = ''b'', prefix = ''ns''\<rparr> ''d/a.txt'') = ''d/a.txt''"
  using getLocalPath_getR2Key [of "''d/a.txt''" "\<lparr>bucket = ''b'', prefix = ''ns''\<rparr>"]
  by (simp add: startsWith_def)

end
